theory Spec2Isabelle
  imports Main
begin

section \<open>Remote-controlled video player (demov1.1.py)\<close>

text \<open>
  The program is one Python script: a class \<open>VideoPlayer\<close> that owns a media player and a
  window, and a set of HTTP handlers that reach the player through the global
  \<open>current_player\<close>. The handlers run on the HTTP thread and only emit queued signals; the
  slots connected to those signals run on the main thread.

  The embedding is state passing. A method of \<open>VideoPlayer\<close> takes the object (\<open>self\<close>) and
  returns its result together with the object after the call. The methods that emit a signal
  also take and return the main thread's queue of pending slot calls. A handler takes the
  process state (\<open>current_player\<close> and the queue) and returns the response and the new state.
  Calls to \<open>print\<close> are left out.
\<close>

subsection \<open>Python values and exceptions\<close>

datatype py_error =
    FileNotFoundError | IndexError | KeyError | TypeError | AttributeError | BadRequest
  | UnicodeEncodeError | OverflowError

text \<open>
  A Python \<open>str\<close> is held as the bytes of its UTF-8 form. A lone surrogate (a code point
  from U+D800 to U+DFFF, which a JSON text can spell as an escape) has no UTF-8 form; it is
  held as the three bytes \<open>ED A0..BF 80..BF\<close>, which no valid UTF-8 text contains.
\<close>

fun has_surrogate :: "string \<Rightarrow> bool" where
  "has_surrogate (a # b # cs) =
     ((a = CHR 0xED \<and> (160::nat) \<le> of_char b) \<or> has_surrogate (b # cs))"
| "has_surrogate _ = False"

text \<open>
  The value \<open>request.get_json\<close> returns. \<open>JObj\<close> holds the members of a JSON object in the
  order of the text; \<open>JFloat\<close> stands for any number that is not an integer (no handler
  reads its value). Python's \<open>None\<close> is \<open>JNull\<close>.
\<close>

datatype json =
    JNull
  | JBool bool
  | JInt int
  | JFloat
  | JStr string
  | JList "json list"
  | JObj "(string \<times> json) list"

text \<open>\<open>Invalid_json\<close>: \<open>get_json(force=True)\<close> raises (the body is not JSON).\<close>

datatype request_body = Invalid_json | Json json

text \<open>\<open>d.get(k)\<close> on a dict built from the members; the last duplicate of a key wins.\<close>

definition dict_get :: "(string \<times> json) list \<Rightarrow> string \<Rightarrow> json" where
  "dict_get kv k = (case map_of (rev kv) k of None \<Rightarrow> JNull | Some v \<Rightarrow> v)"

definition dict_contains :: "(string \<times> json) list \<Rightarrow> string \<Rightarrow> bool" where
  "dict_contains kv k = (map_of (rev kv) k \<noteq> None)"

text \<open>
  \<open>print(label, v)\<close> with an ASCII label. Standard output is a UTF-8 text stream with strict
  error handling, Python's default: writing a \<open>str\<close> that holds a lone surrogate raises
  UnicodeEncodeError. A list or a dict is written through \<open>repr\<close>, which escapes surrogates,
  and the text of \<open>None\<close>, a bool or a number is ASCII, so these are always written.
\<close>

definition py_print :: "json \<Rightarrow> py_error + unit" where
  "py_print v =
     (case v of
        JStr s \<Rightarrow> if has_surrogate s then Inl UnicodeEncodeError else Inr ()
      | _ \<Rightarrow> Inr ())"

text \<open>The decimal text of an integer, as \<open>str\<close> and an f-string give it.\<close>

fun nat_digits :: "nat \<Rightarrow> string" where
  "nat_digits n =
     (if n < 10 then [char_of (48 + n)]
      else nat_digits (n div 10) @ [char_of (48 + n mod 10)])"

declare nat_digits.simps [simp del]

definition int_str :: "int \<Rightarrow> string" where
  "int_str n = (if n < 0 then ''-'' @ nat_digits (nat (- n)) else nat_digits (nat n))"

text \<open>
  \<open>str(v)\<close> inside an f-string, for the values that get as far as being formatted: a
  \<open>str\<close>, an integer or a bool. The text of the other values is not computed.
\<close>

definition py_str :: "json \<Rightarrow> string" where
  "py_str v =
     (case v of
        JStr s \<Rightarrow> s
      | JInt n \<Rightarrow> int_str n
      | JBool b \<Rightarrow> (if b then ''True'' else ''False'')
      | JNull \<Rightarrow> ''None''
      | _ \<Rightarrow> [])"

text \<open>\<open>needle in hay\<close> on two strings: the substring test.\<close>

fun str_contains :: "string \<Rightarrow> string \<Rightarrow> bool" where
  "str_contains needle [] = (needle = [])"
| "str_contains needle (c # cs) =
     (take (length needle) (c # cs) = needle \<or> str_contains needle cs)"

text \<open>
  \<open>xs[i]\<close> on a list, for the values JSON can put in \<open>i\<close>: an integer index (a bool is an
  integer in Python), negative ones counting from the end; IndexError out of range; TypeError
  for any other value.
\<close>

definition list_getitem :: "'a list \<Rightarrow> json \<Rightarrow> py_error + 'a" where
  "list_getitem xs i =
     (let at = (\<lambda>n::int.
            let len = int (length xs); j = (if n < 0 then len + n else n)
            in if 0 \<le> j \<and> j < len then Inr (xs ! nat j) else Inl IndexError)
      in case i of
           JInt n \<Rightarrow> at n
         | JBool b \<Rightarrow> at (if b then 1 else 0)
         | _ \<Rightarrow> Inl TypeError)"

subsection \<open>The filesystem\<close>

text \<open>
  The paths that exist and the file descriptors that are open at the moment of a call.
  File names are text that standard output can write: no path in \<open>paths\<close> holds a lone
  surrogate.
\<close>

record filesystem =
  paths :: "string set"
  open_fds :: "int set"

text \<open>\<open>os.path.exists\<close> on a \<open>str\<close>.\<close>

definition os_path_exists :: "filesystem \<Rightarrow> string \<Rightarrow> bool" where
  "os_path_exists fs p = (p \<in> paths fs)"

text \<open>
  \<open>os.path.exists\<close> on any value a request can carry. An integer (a bool is one) is taken
  as a file descriptor: OverflowError outside the range of a C \<open>int\<close>, otherwise whether
  the descriptor is open. Any other value that is not a \<open>str\<close> raises TypeError.
\<close>

definition os_path_exists_value :: "filesystem \<Rightarrow> json \<Rightarrow> py_error + bool" where
  "os_path_exists_value fs v =
     (let fd = (\<lambda>n::int.
            if n < - 2147483648 \<or> 2147483647 < n then Inl OverflowError
            else Inr (n \<in> open_fds fs))
      in case v of
           JStr p \<Rightarrow> Inr (os_path_exists fs p)
         | JInt n \<Rightarrow> fd n
         | JBool b \<Rightarrow> fd (if b then 1 else 0)
         | _ \<Rightarrow> Inl TypeError)"

text \<open>\<open>os.path.basename\<close>: what follows the last slash.\<close>

definition os_path_basename :: "string \<Rightarrow> string" where
  "os_path_basename p = rev (takeWhile (\<lambda>c. c \<noteq> CHR ''/'') (rev p))"

subsection \<open>The module's globals\<close>

text \<open>
  \<open>DEFAULT\<close> and \<open>VIDEOS\<close> are directory listings read once, when the module is loaded, and
  \<open>MAIN_PATH\<close> is the absolute path of the videos directory: they are parameters here.
\<close>

record globals =
  DEFAULT :: "string list"
  VIDEOS :: "string list"
  MAIN_PATH :: string

definition DEFAULT_VIDEO :: "globals \<Rightarrow> py_error + string" where
  "DEFAULT_VIDEO g =
     (case DEFAULT g of
        [] \<Rightarrow> Inl IndexError
      | d # _ \<Rightarrow> Inr (MAIN_PATH g @ ''/default/'' @ d))"

subsection \<open>The media player, the window and the application\<close>

text \<open>
  The media library and the GUI toolkit are used as they are. Their objects are modelled by
  the part of their state the script reads or sets: the media player by its state and its
  current media, the window by its title and whether it is open, the application by whether
  \<open>quit\<close> was called. In this model a library call does what its name says and does not
  raise, so the \<open>except\<close> branches of \<open>play_in_main_thread\<close> and \<open>close_in_main_thread\<close>
  (which only log and return False) have no counterpart.
\<close>

datatype vlc_state = NothingSpecial | Playing | Paused | Stopped | Ended

record mediaplayer_t =
  mp_state :: vlc_state
  mp_media :: "string option"

definition media_player_new :: mediaplayer_t where
  "media_player_new = \<lparr>mp_state = NothingSpecial, mp_media = None\<rparr>"

definition is_playing :: "mediaplayer_t \<Rightarrow> bool" where
  "is_playing mp = (mp_state mp = Playing)"

definition set_media :: "mediaplayer_t \<Rightarrow> string \<Rightarrow> mediaplayer_t" where
  "set_media mp m = mp\<lparr>mp_media := Some m\<rparr>"

definition mp_play :: "mediaplayer_t \<Rightarrow> mediaplayer_t" where
  "mp_play mp = mp\<lparr>mp_state := Playing\<rparr>"

text \<open>The library's \<open>pause\<close> toggles between playing and paused.\<close>

definition mp_pause :: "mediaplayer_t \<Rightarrow> mediaplayer_t" where
  "mp_pause mp =
     (if mp_state mp = Playing then mp\<lparr>mp_state := Paused\<rparr>
      else if mp_state mp = Paused then mp\<lparr>mp_state := Playing\<rparr>
      else mp)"

definition mp_stop :: "mediaplayer_t \<Rightarrow> mediaplayer_t" where
  "mp_stop mp = mp\<lparr>mp_state := Stopped\<rparr>"

record qframe =
  windowTitle :: string
  is_open :: bool

record qapplication =
  quit_called :: bool

subsection \<open>Signals\<close>

text \<open>
  \<open>change_video_signal\<close> is declared with a \<open>str\<close> argument; the value held here is the
  object given to \<open>emit\<close>.
\<close>

datatype signal =
    change_video_signal json
  | pause_signal
  | play_signal
  | stop_signal
  | close_signal

subsection \<open>VideoPlayer\<close>

text \<open>
  \<open>signals_connected\<close> is the state of \<open>self.signals\<close>: whether \<open>setup_signals\<close> has
  connected the slots. \<open>event_manager\<close> counts the end-of-media callbacks attached (0 is
  \<open>None\<close>), \<open>poll_timer\<close> is whether the polling timer runs.
\<close>

record player =
  default_video :: string
  video_path :: string
  mediaplayer :: mediaplayer_t
  app :: "qapplication option"
  video_frame :: "qframe option"
  is_running :: bool
  is_default_video :: bool
  event_manager :: nat
  signals_connected :: bool
  poll_timer :: bool

definition VideoPlayer :: "filesystem \<Rightarrow> string \<Rightarrow> py_error + player" where
  "VideoPlayer fs path =
     (if \<not> os_path_exists fs path then Inl FileNotFoundError
      else Inr \<lparr>default_video = path,
                video_path = path,
                mediaplayer = media_player_new,
                app = None,
                video_frame = None,
                is_running = False,
                is_default_video = True,
                event_manager = 0,
                signals_connected = False,
                poll_timer = False\<rparr>)"

definition setup_event_manager :: "player \<Rightarrow> player" where
  "setup_event_manager self = self\<lparr>event_manager := Suc (event_manager self)\<rparr>"

definition window_title :: "player \<Rightarrow> string" where
  "window_title self =
     (if is_default_video self then ''[DEFAULT] '' else '''')
       @ ''Video Player - '' @ os_path_basename (video_path self)"

definition play_in_main_thread :: "player \<Rightarrow> bool \<times> player" where
  "play_in_main_thread self =
     (let media = video_path self;
          self1 = self\<lparr>mediaplayer := set_media (mediaplayer self) media\<rparr>;
          self2 = setup_event_manager self1;
          self3 = self2\<lparr>mediaplayer := mp_play (mediaplayer self2)\<rparr>;
          self4 = (case video_frame self3 of
                     None \<Rightarrow> self3
                   | Some fr \<Rightarrow>
                       self3\<lparr>video_frame := Some (fr\<lparr>windowTitle := window_title self3\<rparr>)\<rparr>)
      in (True, self4))"

definition change_video_in_main_thread ::
    "filesystem \<Rightarrow> player \<Rightarrow> string \<Rightarrow> bool \<times> player" where
  "change_video_in_main_thread fs self new_path =
     (if os_path_exists fs new_path then
        let self1 = self\<lparr>video_path := new_path\<rparr>;
            self2 = self1\<lparr>is_default_video := (new_path = default_video self1)\<rparr>;
            self3 = (if is_playing (mediaplayer self2)
                     then self2\<lparr>mediaplayer := mp_stop (mediaplayer self2)\<rparr>
                     else self2);
            self4 = snd (play_in_main_thread self3)
        in (True, self4)
      else (False, self))"

definition handle_media_end :: "filesystem \<Rightarrow> player \<Rightarrow> player" where
  "handle_media_end fs self =
     (if \<not> is_default_video self then
        let self1 = self\<lparr>is_default_video := True\<rparr>
        in snd (change_video_in_main_thread fs self1 (default_video self1))
      else snd (play_in_main_thread self))"

definition check_playback_status :: "filesystem \<Rightarrow> player \<Rightarrow> player" where
  "check_playback_status fs self =
     (if mp_state (mediaplayer self) = Ended then handle_media_end fs self else self)"

definition pause_in_main_thread :: "player \<Rightarrow> bool \<times> player" where
  "pause_in_main_thread self =
     (if is_playing (mediaplayer self)
      then (True, self\<lparr>mediaplayer := mp_pause (mediaplayer self)\<rparr>)
      else (False, self\<lparr>mediaplayer := mp_play (mediaplayer self)\<rparr>))"

definition stop_in_main_thread :: "player \<Rightarrow> bool \<times> player" where
  "stop_in_main_thread self =
     (if is_playing (mediaplayer self)
      then (True, self\<lparr>mediaplayer := mp_stop (mediaplayer self)\<rparr>)
      else (False, self))"

definition close_in_main_thread :: "player \<Rightarrow> bool \<times> player" where
  "close_in_main_thread self =
     (let self1 = (if is_playing (mediaplayer self)
                   then self\<lparr>mediaplayer := mp_stop (mediaplayer self)\<rparr>
                   else self);
          self2 = (case video_frame self1 of
                     None \<Rightarrow> self1
                   | Some fr \<Rightarrow> self1\<lparr>video_frame := Some (fr\<lparr>is_open := False\<rparr>)\<rparr>);
          self3 = (case app self2 of
                     None \<Rightarrow> self2
                   | Some a \<Rightarrow>
                       if is_running self2
                       then self2\<lparr>app := Some (a\<lparr>quit_called := True\<rparr>)\<rparr>
                       else self2)
      in (True, self3))"

text \<open>
  Emitting a signal over a queued connection appends the slot call to the main thread's
  queue; a signal with no connection reaches nobody.
\<close>

definition emit :: "player \<Rightarrow> signal \<Rightarrow> signal list \<Rightarrow> signal list" where
  "emit self s q = (if signals_connected self then q @ [s] else q)"

text \<open>
  The methods that any thread may call: result, object after the call, queue. The paths
  that \<open>change_video\<close> and \<open>change_video_in_main_thread\<close> print are names of files, which
  standard output can write, so these prints have no effect that is modelled.
\<close>

definition change_video ::
    "player \<Rightarrow> signal list \<Rightarrow> json \<Rightarrow> bool \<times> player \<times> signal list" where
  "change_video self q new_path = (True, self, emit self (change_video_signal new_path) q)"

definition play :: "player \<Rightarrow> signal list \<Rightarrow> bool \<times> player \<times> signal list" where
  "play self q = (True, self, emit self play_signal q)"

definition pause :: "player \<Rightarrow> signal list \<Rightarrow> bool \<times> player \<times> signal list" where
  "pause self q = (True, self, emit self pause_signal q)"

definition stop :: "player \<Rightarrow> signal list \<Rightarrow> bool \<times> player \<times> signal list" where
  "stop self q = (True, self, emit self stop_signal q)"

definition close :: "player \<Rightarrow> signal list \<Rightarrow> bool \<times> player \<times> signal list" where
  "close self q = (True, self, emit self close_signal q)"

text \<open>
  The connections made by \<open>setup_signals\<close>: the slot the main thread runs for a signal. The
  slot of \<open>change_video_signal\<close> is run with the \<open>str\<close> that was emitted; what the toolkit
  hands to it for an argument that is not a \<open>str\<close> is not in the source, and no slot is
  run for one.
\<close>

definition run_slot :: "filesystem \<Rightarrow> signal \<Rightarrow> player \<Rightarrow> player" where
  "run_slot fs s self =
     (case s of
        change_video_signal (JStr new_path) \<Rightarrow>
          snd (change_video_in_main_thread fs self new_path)
      | change_video_signal _ \<Rightarrow> self
      | pause_signal \<Rightarrow> snd (pause_in_main_thread self)
      | play_signal \<Rightarrow> snd (play_in_main_thread self)
      | stop_signal \<Rightarrow> snd (stop_in_main_thread self)
      | close_signal \<Rightarrow> snd (close_in_main_thread self))"

definition setup_signals :: "player \<Rightarrow> player" where
  "setup_signals self =
     (let self1 = self\<lparr>signals_connected := True\<rparr>;
          self2 = setup_event_manager self1
      in self2\<lparr>poll_timer := True\<rparr>)"

text \<open>
  \<open>vlcApp\<close> up to the call of \<open>app.exec()\<close>, which runs the event loop. Handing the
  window's id to the media player changes nothing that is modelled.
\<close>

definition vlcApp :: "player \<Rightarrow> player" where
  "vlcApp self =
     (let self1 = self\<lparr>app := Some \<lparr>quit_called = False\<rparr>\<rparr>;
          self2 = self1\<lparr>is_running := True\<rparr>;
          self3 = setup_signals self2;
          self4 = self3\<lparr>video_frame :=
                    Some \<lparr>windowTitle = ''[DEFAULT] Video Player - ''
                                          @ os_path_basename (video_path self3),
                          is_open = True\<rparr>\<rparr>
      in snd (play_in_main_thread self4))"

subsection \<open>The HTTP handlers\<close>

text \<open>
  A response is a status and a body. \<open>jsonify\<close> builds a JSON body (every value the script
  puts in one is a string); a handler that returns it alone answers 200. An exception that
  leaves a handler is answered by the framework with status 500 and its own error page.
\<close>

datatype response_body = Json_body "(string \<times> string) list" | Html_error_page

record response =
  status :: nat
  body :: response_body

definition jsonify :: "(string \<times> string) list \<Rightarrow> nat \<Rightarrow> response" where
  "jsonify kv code = \<lparr>status = code, body = Json_body kv\<rparr>"

text \<open>The process state the handlers see: the global and the main thread's queue.\<close>

record world =
  current_player :: "player option"
  event_queue :: "signal list"

definition store :: "world \<Rightarrow> player \<Rightarrow> signal list \<Rightarrow> world" where
  "store w cp q = w\<lparr>current_player := Some cp, event_queue := q\<rparr>"

text \<open>\<open>request.get_json(force=True)\<close> and the operations the handlers apply to its value.\<close>

definition get_json :: "request_body \<Rightarrow> py_error + json" where
  "get_json b = (case b of Invalid_json \<Rightarrow> Inl BadRequest | Json d \<Rightarrow> Inr d)"

text \<open>\<open>data.get(key)\<close>: only a dict has the method.\<close>

definition py_get :: "json \<Rightarrow> string \<Rightarrow> py_error + json" where
  "py_get data k = (case data of JObj kv \<Rightarrow> Inr (dict_get kv k) | _ \<Rightarrow> Inl AttributeError)"

text \<open>\<open>key in data\<close> for a string key.\<close>

definition py_contains :: "json \<Rightarrow> string \<Rightarrow> py_error + bool" where
  "py_contains data k =
     (case data of
        JObj kv \<Rightarrow> Inr (dict_contains kv k)
      | JStr s \<Rightarrow> Inr (str_contains k s)
      | JList xs \<Rightarrow> Inr (JStr k \<in> set xs)
      | _ \<Rightarrow> Inl TypeError)"

text \<open>\<open>data[key]\<close> for a string key.\<close>

definition py_getitem :: "json \<Rightarrow> string \<Rightarrow> py_error + json" where
  "py_getitem data k =
     (case data of
        JObj kv \<Rightarrow> (if dict_contains kv k then Inr (dict_get kv k) else Inl KeyError)
      | _ \<Rightarrow> Inl TypeError)"

definition resume :: "world \<Rightarrow> response \<times> world" where
  "resume w =
     (case current_player w of
        None \<Rightarrow> (jsonify [(''error'', ''Video player not initialized'')] 500, w)
      | Some cp \<Rightarrow>
          (case play cp (event_queue w) of (ok, cp', q') \<Rightarrow>
             if ok
             then (jsonify [(''status'', ''success''), (''message'', ''Resuming'')] 200,
                   store w cp' q')
             else (jsonify [(''error'', ''Failed to start playback'')] 200, store w cp' q')))"

text \<open>
  In \<open>changeVideo\<close> the \<open>try\<close> block reads the body, calls \<open>data.get\<close> and prints the
  result; any exception there, the one of \<open>print\<close> included, is answered 400.
\<close>

definition changeVideo :: "globals \<Rightarrow> world \<Rightarrow> request_body \<Rightarrow> py_error + response \<times> world" where
  "changeVideo g w b =
     (case (case get_json b of
              Inl e \<Rightarrow> Inl e
            | Inr data \<Rightarrow>
                (case py_get data ''serial-number'' of
                   Inl e \<Rightarrow> Inl e
                 | Inr sn \<Rightarrow>
                     (case py_print sn of
                        Inl e \<Rightarrow> Inl e
                      | Inr _ \<Rightarrow> Inr data))) of
        Inl e \<Rightarrow> Inr (jsonify [(''error'', ''Invalid JSON data'')] 400, w)
      | Inr data \<Rightarrow>
          (case py_get data ''video-id'' of
             Inl e \<Rightarrow> Inl e
           | Inr id' \<Rightarrow>
               (case current_player w of
                  Some cp \<Rightarrow>
                    (case list_getitem (VIDEOS g) id' of
                       Inl e \<Rightarrow> Inl e
                     | Inr v \<Rightarrow>
                         (case change_video cp (event_queue w)
                                 (JStr (MAIN_PATH g @ ''/'' @ v)) of
                            (ok, cp', q') \<Rightarrow>
                              if ok
                              then Inr (jsonify [(''status'', ''success''),
                                                 (''message'', ''Change video request sent'')] 200,
                                        store w cp' q')
                              else Inr (jsonify [(''error'',
                                                  ''Failed to send change video request'')] 200,
                                        store w cp' q')))
                | None \<Rightarrow> Inr (jsonify [(''error'', ''Video player not initialized'')] 500, w))))"

text \<open>
  In \<open>play_video\<close> the \<open>try\<close> block reads the body and prints it; after any exception
  there, the one of \<open>print\<close> included, the handler goes on with an empty dict.
\<close>

definition play_video ::
    "filesystem \<Rightarrow> world \<Rightarrow> request_body \<Rightarrow> py_error + response \<times> world" where
  "play_video fs w b =
     (let data = (case (case get_json b of
                          Inl e \<Rightarrow> Inl e
                        | Inr d \<Rightarrow>
                            (case py_print d of
                               Inl e \<Rightarrow> Inl e
                             | Inr _ \<Rightarrow> Inr d)) of
                    Inl e \<Rightarrow> JObj []
                  | Inr d \<Rightarrow> d)
      in case current_player w of
           None \<Rightarrow> Inr (jsonify [(''error'', ''Video player not initialized'')] 500, w)
         | Some cp \<Rightarrow>
             (case py_contains data ''video_path'' of
                Inl e \<Rightarrow> Inl e
              | Inr True \<Rightarrow>
                  (case py_getitem data ''video_path'' of
                     Inl e \<Rightarrow> Inl e
                   | Inr video_path' \<Rightarrow>
                       (case os_path_exists_value fs video_path' of
                          Inl e \<Rightarrow> Inl e
                        | Inr False \<Rightarrow>
                            Inr (jsonify [(''error'', ''Video file not found'')] 404, w)
                        | Inr True \<Rightarrow>
                            (case change_video cp (event_queue w) video_path' of
                               (ok, cp', q') \<Rightarrow>
                                 if ok
                                 then Inr (jsonify [(''status'', ''success''),
                                                    (''message'',
                                                     ''Play request sent for ''
                                                       @ py_str video_path')] 200,
                                           store w cp' q')
                                 else Inr (jsonify [(''error'',
                                                     ''Failed to send play request'')] 500,
                                           store w cp' q'))))
              | Inr False \<Rightarrow>
                  (case play cp (event_queue w) of
                     (ok, cp', q') \<Rightarrow>
                       if ok
                       then Inr (jsonify [(''status'', ''success''),
                                          (''message'', ''Play request sent'')] 200,
                                 store w cp' q')
                       else Inr (jsonify [(''error'', ''Failed to send play request'')] 500,
                                 store w cp' q'))))"

definition pause_video :: "world \<Rightarrow> response \<times> world" where
  "pause_video w =
     (case current_player w of
        Some cp \<Rightarrow>
          (case pause cp (event_queue w) of (ok, cp', q') \<Rightarrow>
             if ok
             then (jsonify [(''status'', ''success''), (''message'', ''Pause request sent'')] 200,
                   store w cp' q')
             else (jsonify [(''status'', ''error''),
                            (''message'', ''Failed to send pause request'')] 400,
                   store w cp' q'))
      | None \<Rightarrow>
          (jsonify [(''status'', ''error''), (''message'', ''Video player not initialized'')] 500,
           w))"

definition stop_video :: "world \<Rightarrow> response \<times> world" where
  "stop_video w =
     (case current_player w of
        Some cp \<Rightarrow>
          (case stop cp (event_queue w) of (ok, cp', q') \<Rightarrow>
             if ok
             then (jsonify [(''status'', ''success''), (''message'', ''Stop request sent'')] 200,
                   store w cp' q')
             else (jsonify [(''status'', ''error''),
                            (''message'', ''Failed to send stop request'')] 400,
                   store w cp' q'))
      | None \<Rightarrow>
          (jsonify [(''status'', ''error''), (''message'', ''Video player not initialized'')] 500,
           w))"

definition close_player :: "world \<Rightarrow> response \<times> world" where
  "close_player w =
     (case current_player w of
        Some cp \<Rightarrow>
          (case close cp (event_queue w) of (ok, cp', q') \<Rightarrow>
             if ok
             then (jsonify [(''status'', ''success''), (''message'', ''Close request sent'')] 200,
                   store w cp' q')
             else (jsonify [(''status'', ''error''),
                            (''message'', ''Failed to send close request'')] 500,
                   store w cp' q'))
      | None \<Rightarrow>
          (jsonify [(''status'', ''error''), (''message'', ''Video player not initialized'')] 500,
           w))"

definition test_endpoint :: "world \<Rightarrow> response \<times> world" where
  "test_endpoint w = (jsonify [(''status'', ''API is running'')] 200, w)"

text \<open>The framework around a handler: an exception becomes a 500 response.\<close>

definition flask_dispatch :: "world \<Rightarrow> py_error + response \<times> world \<Rightarrow> response \<times> world" where
  "flask_dispatch w r =
     (case r of
        Inl e \<Rightarrow> (\<lparr>status = 500, body = Html_error_page\<rparr>, w)
      | Inr rw \<Rightarrow> rw)"

text \<open>The routes; each is requested with the method it is registered for.\<close>

datatype endpoint =
    POST_resume | POST_changeVideo | POST_play | POST_pause | POST_stop | POST_close | GET_test

definition handle_request ::
    "globals \<Rightarrow> filesystem \<Rightarrow> world \<Rightarrow> endpoint \<Rightarrow> request_body \<Rightarrow> response \<times> world" where
  "handle_request g fs w ep b =
     (case ep of
        POST_resume \<Rightarrow> resume w
      | POST_changeVideo \<Rightarrow> flask_dispatch w (changeVideo g w b)
      | POST_play \<Rightarrow> flask_dispatch w (play_video fs w b)
      | POST_pause \<Rightarrow> pause_video w
      | POST_stop \<Rightarrow> stop_video w
      | POST_close \<Rightarrow> close_player w
      | GET_test \<Rightarrow> test_endpoint w)"

text \<open>\<open>main\<close> up to the start of the two threads: the global is set from \<open>DEFAULT_VIDEO\<close>.\<close>

definition main :: "globals \<Rightarrow> filesystem \<Rightarrow> py_error + world" where
  "main g fs =
     (case DEFAULT_VIDEO g of
        Inl e \<Rightarrow> Inl e
      | Inr dv \<Rightarrow>
          (case VideoPlayer fs dv of
             Inl e \<Rightarrow> Inl e
           | Inr p \<Rightarrow> Inr \<lparr>current_player = Some p, event_queue = []\<rparr>))"

subsection \<open>Properties named by the specification\<close>


text \<open>
  The bodies \<open>changeVideo\<close> goes on with: a JSON object whose \<open>serial-number\<close> is not a
  string with a lone surrogate.
\<close>

definition object_with_printable_serial :: "request_body \<Rightarrow> bool" where
  "object_with_printable_serial b =
     (case b of
        Json (JObj kv) \<Rightarrow>
          (case dict_get kv ''serial-number'' of
             JStr s \<Rightarrow> \<not> has_surrogate s
           | _ \<Rightarrow> True)
      | _ \<Rightarrow> False)"

text \<open>
  The bodies of the handlers' failure branches, taken when an any-thread method returns
  False: \<open>/resume\<close>, \<open>/changeVideo\<close>, \<open>/play\<close>, \<open>/pause\<close>, \<open>/stop\<close>, \<open>/close\<close>.
\<close>

definition send_failed_bodies :: "response_body list" where
  "send_failed_bodies =
     [Json_body [(''error'', ''Failed to start playback'')],
      Json_body [(''error'', ''Failed to send change video request'')],
      Json_body [(''error'', ''Failed to send play request'')],
      Json_body [(''status'', ''error''), (''message'', ''Failed to send pause request'')],
      Json_body [(''status'', ''error''), (''message'', ''Failed to send stop request'')],
      Json_body [(''status'', ''error''), (''message'', ''Failed to send close request'')]]"

text \<open>The flag agrees with the path.\<close>

definition flag_agrees :: "player \<Rightarrow> bool" where
  "flag_agrees self = (is_default_video self = (video_path self = default_video self))"

subsection \<open>Example states\<close>

definition ex_globals :: globals where
  "ex_globals = \<lparr>DEFAULT = [''idle.mp4''], VIDEOS = [''default'', ''promo.mp4''],
                 MAIN_PATH = ''/srv/videos''\<rparr>"

definition ex_fs :: filesystem where
  "ex_fs = \<lparr>paths = {''/srv/videos/default/idle.mp4'', ''/srv/videos/promo.mp4''},
            open_fds = {0, 1, 2}\<rparr>"

text \<open>The same directory after the default video was removed.\<close>

definition ex_fs_no_default :: filesystem where
  "ex_fs_no_default = \<lparr>paths = {''/srv/videos/promo.mp4''}, open_fds = {0, 1, 2}\<rparr>"


text \<open>The player as the constructor returns it for the default video.\<close>

definition ex_fresh :: player where
  "ex_fresh =
     \<lparr>default_video = ''/srv/videos/default/idle.mp4'',
      video_path = ''/srv/videos/default/idle.mp4'',
      mediaplayer = \<lparr>mp_state = NothingSpecial, mp_media = None\<rparr>,
      app = None,
      video_frame = None,
      is_running = False,
      is_default_video = True,
      event_manager = 0,
      signals_connected = False,
      poll_timer = False\<rparr>"

text \<open>The player while the default video plays, and after the promo video has ended.\<close>

definition ex_idle :: player where
  "ex_idle =
     \<lparr>default_video = ''/srv/videos/default/idle.mp4'',
      video_path = ''/srv/videos/default/idle.mp4'',
      mediaplayer = \<lparr>mp_state = Playing, mp_media = Some ''/srv/videos/default/idle.mp4''\<rparr>,
      app = Some \<lparr>quit_called = False\<rparr>,
      video_frame = Some \<lparr>windowTitle = ''[DEFAULT] Video Player - idle.mp4'', is_open = True\<rparr>,
      is_running = True,
      is_default_video = True,
      event_manager = 2,
      signals_connected = True,
      poll_timer = True\<rparr>"

definition ex_promo_ended :: player where
  "ex_promo_ended =
     \<lparr>default_video = ''/srv/videos/default/idle.mp4'',
      video_path = ''/srv/videos/promo.mp4'',
      mediaplayer = \<lparr>mp_state = Ended, mp_media = Some ''/srv/videos/promo.mp4''\<rparr>,
      app = Some \<lparr>quit_called = False\<rparr>,
      video_frame = Some \<lparr>windowTitle = ''Video Player - promo.mp4'', is_open = True\<rparr>,
      is_running = True,
      is_default_video = False,
      event_manager = 3,
      signals_connected = True,
      poll_timer = True\<rparr>"

definition ex_world :: world where
  "ex_world = \<lparr>current_player = Some ex_idle, event_queue = []\<rparr>"

definition ex_world_uninitialized :: world where
  "ex_world_uninitialized = \<lparr>current_player = None, event_queue = []\<rparr>"

section \<open>Facts about the slots and the handlers\<close>

text \<open>What \<open>play_in_main_thread\<close> leaves alone and what it sets.\<close>

lemma play_in_main_thread_fields:
  "video_path (snd (play_in_main_thread self)) = video_path self"
  "default_video (snd (play_in_main_thread self)) = default_video self"
  "is_default_video (snd (play_in_main_thread self)) = is_default_video self"
  "mp_state (mediaplayer (snd (play_in_main_thread self))) = Playing"
  "mp_media (mediaplayer (snd (play_in_main_thread self))) = Some (video_path self)"
  "app (snd (play_in_main_thread self)) = app self"
  "is_running (snd (play_in_main_thread self)) = is_running self"
  "signals_connected (snd (play_in_main_thread self)) = signals_connected self"
  by (simp_all add: play_in_main_thread_def Let_def setup_event_manager_def set_media_def
        mp_play_def split: option.splits)

text \<open>The two outcomes of \<open>change_video_in_main_thread\<close>.\<close>

lemma change_video_in_main_thread_missing:
  "\<not> os_path_exists fs new_path \<Longrightarrow> change_video_in_main_thread fs self new_path = (False, self)"
  by (simp add: change_video_in_main_thread_def)

lemma change_video_in_main_thread_existing:
  assumes "os_path_exists fs new_path"
  shows "fst (change_video_in_main_thread fs self new_path) = True"
    and "video_path (snd (change_video_in_main_thread fs self new_path)) = new_path"
    and "default_video (snd (change_video_in_main_thread fs self new_path)) = default_video self"
    and "is_default_video (snd (change_video_in_main_thread fs self new_path))
           = (new_path = default_video self)"
    and "mp_state (mediaplayer (snd (change_video_in_main_thread fs self new_path))) = Playing"
    and "mp_media (mediaplayer (snd (change_video_in_main_thread fs self new_path)))
           = Some new_path"
  using assms
  by (simp_all add: change_video_in_main_thread_def Let_def play_in_main_thread_fields)

lemmas any_thread_defs = change_video_def play_def pause_def stop_def close_def




lemma printable_serial_print:
  "object_with_printable_serial (Json (JObj kv)) \<Longrightarrow>
     py_print (dict_get kv ''serial-number'') = Inr ()"
  by (auto simp: object_with_printable_serial_def py_print_def split: json.splits)

lemma unprintable_serial_print:
  "\<not> object_with_printable_serial (Json (JObj kv)) \<Longrightarrow>
     py_print (dict_get kv ''serial-number'') = Inl UnicodeEncodeError"
  by (auto simp: object_with_printable_serial_def py_print_def split: json.splits)

lemma printable_serial_is_object:
  "object_with_printable_serial b \<Longrightarrow> \<exists>kv. b = Json (JObj kv)"
  by (auto simp: object_with_printable_serial_def split: request_body.splits json.splits)

text \<open>What \<open>changeVideo\<close> does once its \<open>try\<close> block has passed, and when it has not.\<close>

lemma changeVideo_accepted:
  assumes "object_with_printable_serial (Json (JObj kv))"
  shows "changeVideo g w (Json (JObj kv)) =
      (case current_player w of
         Some cp \<Rightarrow>
           (case list_getitem (VIDEOS g) (dict_get kv ''video-id'') of
              Inl e \<Rightarrow> Inl e
            | Inr v \<Rightarrow>
                Inr (jsonify [(''status'', ''success''),
                              (''message'', ''Change video request sent'')] 200,
                     store w cp (emit cp (change_video_signal (JStr (MAIN_PATH g @ ''/'' @ v)))
                                   (event_queue w))))
       | None \<Rightarrow> Inr (jsonify [(''error'', ''Video player not initialized'')] 500, w))"
  using printable_serial_print [OF assms]
  by (simp add: changeVideo_def get_json_def py_get_def change_video_def
        split: option.splits sum.splits)

lemma changeVideo_rejected:
  assumes "\<not> object_with_printable_serial b"
  shows "changeVideo g w b = Inr (jsonify [(''error'', ''Invalid JSON data'')] 400, w)"
proof (cases b)
  case Invalid_json
  then show ?thesis by (simp add: changeVideo_def get_json_def)
next
  case (Json d)
  show ?thesis
  proof (cases "\<exists>kv. d = JObj kv")
    case True
    then obtain kv where d: "d = JObj kv" ..
    from assms Json d have "py_print (dict_get kv ''serial-number'') = Inl UnicodeEncodeError"
      by (simp add: unprintable_serial_print)
    then show ?thesis
      by (simp add: Json d changeVideo_def get_json_def py_get_def)
  next
    case False
    then show ?thesis
      by (cases d) (simp_all add: Json changeVideo_def get_json_def py_get_def)
  qed
qed

text \<open>
  With the player initialized, \<open>play_video\<close> ends in one of four ways: an exception, the
  404 answer, or one of the two 200 answers, each with its signal emitted.
\<close>

lemma play_video_initialized:
  assumes cp: "current_player w = Some cp"
  shows "(\<exists>e. play_video fs w b = Inl e)
       \<or> play_video fs w b = Inr (jsonify [(''error'', ''Video file not found'')] 404, w)
       \<or> (\<exists>v. play_video fs w b =
               Inr (jsonify [(''status'', ''success''),
                             (''message'', ''Play request sent for '' @ py_str v)] 200,
                    store w cp (emit cp (change_video_signal v) (event_queue w))))
       \<or> play_video fs w b =
            Inr (jsonify [(''status'', ''success''), (''message'', ''Play request sent'')] 200,
                 store w cp (emit cp play_signal (event_queue w)))"
proof -
  define data where "data = (case (case get_json b of
                          Inl e \<Rightarrow> Inl e
                        | Inr d \<Rightarrow>
                            (case py_print d of
                               Inl e \<Rightarrow> Inl e
                             | Inr _ \<Rightarrow> Inr d)) of
                    Inl e \<Rightarrow> JObj []
                  | Inr d \<Rightarrow> d)"
  have unfold: "play_video fs w b =
      (case py_contains data ''video_path'' of
         Inl e \<Rightarrow> Inl e
       | Inr True \<Rightarrow>
           (case py_getitem data ''video_path'' of
              Inl e \<Rightarrow> Inl e
            | Inr video_path' \<Rightarrow>
                (case os_path_exists_value fs video_path' of
                   Inl e \<Rightarrow> Inl e
                 | Inr False \<Rightarrow>
                     Inr (jsonify [(''error'', ''Video file not found'')] 404, w)
                 | Inr True \<Rightarrow>
                     (case change_video cp (event_queue w) video_path' of
                        (ok, cp', q') \<Rightarrow>
                          if ok
                          then Inr (jsonify [(''status'', ''success''),
                                             (''message'',
                                              ''Play request sent for ''
                                                @ py_str video_path')] 200,
                                    store w cp' q')
                          else Inr (jsonify [(''error'',
                                              ''Failed to send play request'')] 500,
                                    store w cp' q'))))
       | Inr False \<Rightarrow>
           (case play cp (event_queue w) of
              (ok, cp', q') \<Rightarrow>
                if ok
                then Inr (jsonify [(''status'', ''success''),
                                   (''message'', ''Play request sent'')] 200,
                          store w cp' q')
                else Inr (jsonify [(''error'', ''Failed to send play request'')] 500,
                          store w cp' q')))"
    unfolding play_video_def data_def [symmetric] Let_def by (simp only: cp option.case)
  show ?thesis
  proof (cases "py_contains data ''video_path''")
    case (Inl e)
    then show ?thesis by (simp add: unfold)
  next
    case (Inr c)
    show ?thesis
    proof (cases c)
      case False
      with Inr show ?thesis by (simp add: unfold play_def)
    next
      case True
      show ?thesis
      proof (cases "py_getitem data ''video_path''")
        case (Inl e)
        with Inr True show ?thesis by (simp add: unfold)
      next
        case getitem: (Inr v)
        show ?thesis
        proof (cases "os_path_exists_value fs v")
          case (Inl e)
          with Inr True getitem show ?thesis by (simp add: unfold)
        next
          case exists: (Inr x)
          show ?thesis
          proof (cases x)
            case False
            with Inr \<open>c\<close> getitem exists show ?thesis by (simp add: unfold)
          next
            case True
            with Inr \<open>c\<close> getitem exists
            have "play_video fs w b =
               Inr (jsonify [(''status'', ''success''),
                             (''message'', ''Play request sent for '' @ py_str v)] 200,
                    store w cp (emit cp (change_video_signal v) (event_queue w)))"
              by (simp add: unfold change_video_def)
            then show ?thesis by blast
          qed
        qed
      qed
    qed
  qed
qed

lemma handle_request_current_player_play:
  "current_player (snd (handle_request g fs w POST_play b)) = current_player w"
proof (cases "current_player w")
  case None
  then show ?thesis
    by (simp add: handle_request_def flask_dispatch_def play_video_def Let_def)
next
  case (Some cp)
  from play_video_initialized [OF Some, of fs b] show ?thesis
    by (auto simp: handle_request_def flask_dispatch_def store_def Some)
qed

lemma handle_request_body_not_failed_play:
  "body (fst (handle_request g fs w POST_play b)) \<notin> set send_failed_bodies"
proof (cases "current_player w")
  case None
  then show ?thesis
    by (simp add: handle_request_def flask_dispatch_def play_video_def Let_def jsonify_def
          send_failed_bodies_def)
next
  case (Some cp)
  from play_video_initialized [OF Some, of fs b] show ?thesis
    by (auto simp: handle_request_def flask_dispatch_def jsonify_def send_failed_bodies_def)
qed

lemma handle_request_current_player_changeVideo:
  "current_player (snd (handle_request g fs w POST_changeVideo b)) = current_player w"
proof (cases "object_with_printable_serial b")
  case True
  then obtain kv where b: "b = Json (JObj kv)"
    using printable_serial_is_object by blast
  from True show ?thesis
    unfolding b
    by (simp add: handle_request_def flask_dispatch_def changeVideo_accepted store_def
          split: sum.splits option.splits)
next
  case False
  then show ?thesis
    by (simp add: handle_request_def flask_dispatch_def changeVideo_rejected)
qed

lemma handle_request_body_not_failed_changeVideo:
  "body (fst (handle_request g fs w POST_changeVideo b)) \<notin> set send_failed_bodies"
proof (cases "object_with_printable_serial b")
  case True
  then obtain kv where b: "b = Json (JObj kv)"
    using printable_serial_is_object by blast
  from True show ?thesis
    unfolding b
    by (simp add: handle_request_def flask_dispatch_def changeVideo_accepted jsonify_def
          send_failed_bodies_def split: sum.splits option.splits)
next
  case False
  then show ?thesis
    by (simp add: handle_request_def flask_dispatch_def changeVideo_rejected jsonify_def
          send_failed_bodies_def)
qed

text \<open>No handler replaces or changes the object in \<open>current_player\<close>.\<close>

lemma handle_request_current_player:
  "current_player (snd (handle_request g fs w ep b)) = current_player w"
proof (cases ep)
  case POST_changeVideo
  then show ?thesis
    by (simp add: handle_request_current_player_changeVideo)
next
  case POST_play
  then show ?thesis by (simp add: handle_request_current_player_play)
qed (auto simp: handle_request_def resume_def pause_video_def stop_video_def close_player_def
       test_endpoint_def any_thread_defs store_def split: option.splits)

text \<open>No response carries the body of a failure branch.\<close>

lemma handle_request_body_not_failed:
  "body (fst (handle_request g fs w ep b)) \<notin> set send_failed_bodies"
proof (cases ep)
  case POST_changeVideo
  then show ?thesis
    by (simp add: handle_request_body_not_failed_changeVideo)
next
  case POST_play
  then show ?thesis by (simp add: handle_request_body_not_failed_play)
qed (auto simp: handle_request_def resume_def pause_video_def stop_video_def close_player_def
       test_endpoint_def any_thread_defs jsonify_def send_failed_bodies_def split: option.splits)

section \<open>The claims\<close>

subsection \<open>C1: the video-transition rule\<close>

text \<open>
  C1. When playback ends, \<open>handle_media_end\<close> follows the transition rule. If the video
  that ended was not the default one and the default video's file exists at that moment, the
  player switches to the default video and plays it, with \<open>is_default_video\<close> true. If the
  video that ended was the default one, the same video is started again, so the default
  loops.
\<close>

theorem handle_media_end_rule:
  "(\<not> is_default_video self \<and> os_path_exists fs (default_video self) \<longrightarrow>
      is_default_video (handle_media_end fs self)
      \<and> video_path (handle_media_end fs self) = default_video self
      \<and> mp_media (mediaplayer (handle_media_end fs self)) = Some (default_video self)
      \<and> mp_state (mediaplayer (handle_media_end fs self)) = Playing)
   \<and> (is_default_video self \<longrightarrow>
      is_default_video (handle_media_end fs self)
      \<and> video_path (handle_media_end fs self) = video_path self
      \<and> mp_media (mediaplayer (handle_media_end fs self)) = Some (video_path self)
      \<and> mp_state (mediaplayer (handle_media_end fs self)) = Playing)"
  by (simp add: handle_media_end_def Let_def play_in_main_thread_fields
        change_video_in_main_thread_existing)

theorem handle_media_end_rule_witness:
  "(\<not> is_default_video ex_promo_ended
      \<and> os_path_exists ex_fs (default_video ex_promo_ended)
      \<and> is_default_video (handle_media_end ex_fs ex_promo_ended)
      \<and> video_path (handle_media_end ex_fs ex_promo_ended) = ''/srv/videos/default/idle.mp4''
      \<and> mp_media (mediaplayer (handle_media_end ex_fs ex_promo_ended))
           = Some ''/srv/videos/default/idle.mp4''
      \<and> mp_state (mediaplayer (handle_media_end ex_fs ex_promo_ended)) = Playing)
   \<and> (is_default_video ex_idle
      \<and> video_path (handle_media_end ex_fs ex_idle) = ''/srv/videos/default/idle.mp4''
      \<and> mp_state (mediaplayer (handle_media_end ex_fs ex_idle)) = Playing)"
  using handle_media_end_rule [of ex_promo_ended ex_fs] handle_media_end_rule [of ex_idle ex_fs]
  by (simp add: ex_promo_ended_def ex_idle_def ex_fs_def os_path_exists_def)

text \<open>
  Without the file the switch does not happen: after the promo video has ended in a directory
  that no longer holds the default video, the path and the media are still the promo video's
  and nothing plays.
\<close>

theorem handle_media_end_default_missing:
  "\<not> is_default_video ex_promo_ended
   \<and> video_path (handle_media_end ex_fs_no_default ex_promo_ended) = ''/srv/videos/promo.mp4''
   \<and> video_path (handle_media_end ex_fs_no_default ex_promo_ended)
        \<noteq> default_video ex_promo_ended
   \<and> mp_media (mediaplayer (handle_media_end ex_fs_no_default ex_promo_ended))
        = Some ''/srv/videos/promo.mp4''
   \<and> mp_state (mediaplayer (handle_media_end ex_fs_no_default ex_promo_ended)) = Ended"
  by (simp add: handle_media_end_def Let_def change_video_in_main_thread_def os_path_exists_def
        ex_promo_ended_def ex_fs_no_default_def)

subsection \<open>C2: \<open>/play\<close> with a path that does not exist\<close>

text \<open>
  C2. A \<open>POST /play\<close> whose JSON object has a \<open>video_path\<close> naming a file that does not
  exist, with the player initialized, is answered 404 with an error payload; no signal is
  emitted and the process state, the player included, is the one before the request.
\<close>

theorem play_video_missing_file:
  assumes "current_player w = Some cp"
    and "b = Json (JObj kv)"
    and "map_of (rev kv) ''video_path'' = Some (JStr p)"
    and "\<not> os_path_exists fs p"
  shows "play_video fs w b = Inr (jsonify [(''error'', ''Video file not found'')] 404, w)
       \<and> handle_request g fs w POST_play b
           = (\<lparr>status = 404, body = Json_body [(''error'', ''Video file not found'')]\<rparr>, w)"
  using assms
  by (simp add: handle_request_def flask_dispatch_def play_video_def get_json_def py_print_def
        py_contains_def py_getitem_def dict_contains_def dict_get_def os_path_exists_value_def
        jsonify_def)

theorem play_video_missing_file_witness:
  "current_player ex_world = Some ex_idle
   \<and> map_of (rev [(''video_path'', JStr ''/srv/videos/gone.mp4'')]) ''video_path''
        = Some (JStr ''/srv/videos/gone.mp4'')
   \<and> \<not> os_path_exists ex_fs ''/srv/videos/gone.mp4''
   \<and> handle_request ex_globals ex_fs ex_world POST_play
        (Json (JObj [(''video_path'', JStr ''/srv/videos/gone.mp4'')]))
        = (\<lparr>status = 404, body = Json_body [(''error'', ''Video file not found'')]\<rparr>, ex_world)"
  using play_video_missing_file [of ex_world ex_idle
      "Json (JObj [(''video_path'', JStr ''/srv/videos/gone.mp4'')])"
      "[(''video_path'', JStr ''/srv/videos/gone.mp4'')]" "''/srv/videos/gone.mp4''" ex_fs
      ex_globals]
  by (simp add: ex_world_def ex_fs_def os_path_exists_def)

subsection \<open>C3: control endpoints before initialization\<close>




subsection \<open>C4: \<open>/changeVideo\<close>\<close>




subsection \<open>C5: \<open>/test\<close>\<close>

text \<open>
  C5. Every \<open>GET /test\<close> is answered 200, whatever the state of the process is,
  \<open>current_player\<close> being \<open>None\<close> included; the state is left as it was.
\<close>

theorem test_endpoint_always_200:
  "handle_request g fs w GET_test b
     = (\<lparr>status = 200, body = Json_body [(''status'', ''API is running'')]\<rparr>, w)"
  by (simp add: handle_request_def test_endpoint_def jsonify_def)

subsection \<open>C6: \<open>/pause\<close> toggles\<close>

text \<open>
  C6. The slot the main thread runs for the pause signal toggles: a playing media player
  becomes paused, one that is not playing starts playing. The status of the handler's
  response is one of 200, 400 and 500, and with the player initialized the handler emits the
  pause signal.
\<close>

theorem pause_toggles:
  "(is_playing (mediaplayer self) \<longrightarrow>
      mp_state (mediaplayer (run_slot fs pause_signal self)) = Paused)
   \<and> (\<not> is_playing (mediaplayer self) \<longrightarrow>
      mp_state (mediaplayer (run_slot fs pause_signal self)) = Playing)
   \<and> status (fst (handle_request g fs w POST_pause b)) \<in> {200, 400, 500}
   \<and> (current_player w = Some cp \<longrightarrow>
        status (fst (handle_request g fs w POST_pause b)) = 200
        \<and> event_queue (snd (handle_request g fs w POST_pause b))
             = emit cp pause_signal (event_queue w))
   \<and> (current_player w = None \<longrightarrow>
        status (fst (handle_request g fs w POST_pause b)) = 500
        \<and> snd (handle_request g fs w POST_pause b) = w)"
  by (simp add: run_slot_def pause_in_main_thread_def is_playing_def mp_pause_def mp_play_def
        handle_request_def pause_video_def pause_def jsonify_def store_def split: option.splits)

theorem pause_toggles_witness:
  "is_playing (mediaplayer ex_idle)
   \<and> mp_state (mediaplayer (run_slot ex_fs pause_signal ex_idle)) = Paused
   \<and> \<not> is_playing (mediaplayer ex_promo_ended)
   \<and> mp_state (mediaplayer (run_slot ex_fs pause_signal ex_promo_ended)) = Playing
   \<and> current_player ex_world = Some ex_idle
   \<and> status (fst (handle_request ex_globals ex_fs ex_world POST_pause Invalid_json)) = 200
   \<and> event_queue (snd (handle_request ex_globals ex_fs ex_world POST_pause Invalid_json))
        = [pause_signal]
   \<and> current_player ex_world_uninitialized = None
   \<and> status (fst (handle_request ex_globals ex_fs ex_world_uninitialized POST_pause
                     Invalid_json)) = 500"
  using pause_toggles [of ex_idle ex_fs ex_globals ex_world Invalid_json ex_idle]
        pause_toggles [of ex_promo_ended ex_fs ex_globals ex_world_uninitialized Invalid_json
          ex_idle]
  by (simp add: ex_idle_def ex_promo_ended_def ex_world_def ex_world_uninitialized_def
        is_playing_def emit_def)

subsection \<open>C7: the any-thread methods only emit\<close>

text \<open>
  C7. \<open>change_video\<close>, \<open>play\<close>, \<open>pause\<close>, \<open>stop\<close> and \<open>close\<close> return the object as they
  received it, every field included: all they do is emit their signal, which is appended
  to the main thread's queue when the slots are connected. No request changes the object in
  \<open>current_player\<close>.
\<close>

theorem any_thread_methods_only_emit:
  "change_video self q new_path = (True, self, emit self (change_video_signal new_path) q)
   \<and> play self q = (True, self, emit self play_signal q)
   \<and> pause self q = (True, self, emit self pause_signal q)
   \<and> stop self q = (True, self, emit self stop_signal q)
   \<and> close self q = (True, self, emit self close_signal q)
   \<and> emit self s q = (if signals_connected self then q @ [s] else q)
   \<and> current_player (snd (handle_request g fs w ep b)) = current_player w"
  by (simp add: any_thread_defs emit_def handle_request_current_player)

subsection \<open>C8: the failure branches are dead\<close>

text \<open>
  C8. The any-thread methods return True on every call. So with the player initialized
  \<open>/resume\<close>, \<open>/pause\<close>, \<open>/stop\<close> and \<open>/close\<close> answer 200, \<open>/pause\<close> and \<open>/stop\<close> never
  answer 400, and no response of any endpoint carries the body of a failure branch.
\<close>

theorem any_thread_methods_return_True:
  "fst (change_video self q new_path) \<and> fst (play self q) \<and> fst (pause self q)
   \<and> fst (stop self q) \<and> fst (close self q)
   \<and> (current_player w \<noteq> None \<and> ep \<in> {POST_resume, POST_pause, POST_stop, POST_close} \<longrightarrow>
        status (fst (handle_request g fs w ep b)) = 200)
   \<and> status (fst (handle_request g fs w POST_pause b)) \<noteq> 400
   \<and> status (fst (handle_request g fs w POST_stop b)) \<noteq> 400
   \<and> body (fst (handle_request g fs w ep b)) \<notin> set send_failed_bodies"
proof -
  have ok: "current_player w \<noteq> None \<and> ep \<in> {POST_resume, POST_pause, POST_stop, POST_close} \<Longrightarrow>
        status (fst (handle_request g fs w ep b)) = 200"
    by (auto simp: handle_request_def resume_def pause_video_def stop_video_def close_player_def
          any_thread_defs jsonify_def)
  have no400: "status (fst (handle_request g fs w POST_pause b)) \<noteq> 400"
      "status (fst (handle_request g fs w POST_stop b)) \<noteq> 400"
    by (auto simp: handle_request_def pause_video_def stop_video_def any_thread_defs jsonify_def
          split: option.splits)
  show ?thesis
    using ok no400 handle_request_body_not_failed [of g fs w ep b]
    by (simp add: any_thread_defs)
qed

theorem any_thread_methods_return_True_witness:
  "current_player ex_world \<noteq> None
   \<and> POST_stop \<in> {POST_resume, POST_pause, POST_stop, POST_close}
   \<and> status (fst (handle_request ex_globals ex_fs ex_world POST_stop Invalid_json)) = 200
   \<and> body (fst (handle_request ex_globals ex_fs ex_world POST_stop Invalid_json))
        \<notin> set send_failed_bodies"
  using any_thread_methods_return_True [of ex_idle "[]" "JStr ''x''" ex_world POST_stop
          ex_globals
          ex_fs Invalid_json]
  by (simp add: ex_world_def)

subsection \<open>C9: \<open>change_video_in_main_thread\<close> is atomic on error\<close>

text \<open>
  C9. For a path that does not exist \<open>change_video_in_main_thread\<close> returns False and the
  object is unchanged, so \<open>video_path\<close>, \<open>is_default_video\<close> and the playback are as before.
  For a path that exists it returns True, \<open>video_path\<close> is the new path, \<open>is_default_video\<close>
  says whether the new path is the default one, and the new video plays.
\<close>

theorem change_video_in_main_thread_atomic:
  "(\<not> os_path_exists fs new_path \<longrightarrow>
      change_video_in_main_thread fs self new_path = (False, self))
   \<and> (os_path_exists fs new_path \<longrightarrow>
      fst (change_video_in_main_thread fs self new_path) = True
      \<and> video_path (snd (change_video_in_main_thread fs self new_path)) = new_path
      \<and> is_default_video (snd (change_video_in_main_thread fs self new_path))
           = (new_path = default_video self)
      \<and> mp_media (mediaplayer (snd (change_video_in_main_thread fs self new_path)))
           = Some new_path
      \<and> mp_state (mediaplayer (snd (change_video_in_main_thread fs self new_path))) = Playing)"
  by (simp add: change_video_in_main_thread_missing change_video_in_main_thread_existing)

theorem change_video_in_main_thread_atomic_witness:
  "\<not> os_path_exists ex_fs ''/srv/videos/gone.mp4''
   \<and> change_video_in_main_thread ex_fs ex_idle ''/srv/videos/gone.mp4'' = (False, ex_idle)
   \<and> os_path_exists ex_fs ''/srv/videos/promo.mp4''
   \<and> video_path (snd (change_video_in_main_thread ex_fs ex_idle ''/srv/videos/promo.mp4''))
        = ''/srv/videos/promo.mp4''
   \<and> \<not> is_default_video (snd (change_video_in_main_thread ex_fs ex_idle
                                  ''/srv/videos/promo.mp4''))
   \<and> mp_state (mediaplayer (snd (change_video_in_main_thread ex_fs ex_idle
                                     ''/srv/videos/promo.mp4''))) = Playing"
  using change_video_in_main_thread_atomic [of ex_fs "''/srv/videos/gone.mp4''" ex_idle]
        change_video_in_main_thread_atomic [of ex_fs "''/srv/videos/promo.mp4''" ex_idle]
  by (simp add: ex_fs_def os_path_exists_def ex_idle_def)

subsection \<open>C10: the flag agrees with the path\<close>

text \<open>
  C10. \<open>is_default_video = (video_path = default_video)\<close> holds for the object the
  constructor returns, is preserved by \<open>change_video_in_main_thread\<close>, and, when the default
  video's file exists, is preserved by \<open>handle_media_end\<close>.
\<close>

theorem flag_agrees_invariant:
  "(VideoPlayer fs path = Inr self0 \<longrightarrow> flag_agrees self0)
   \<and> (flag_agrees self \<longrightarrow> flag_agrees (snd (change_video_in_main_thread fs self new_path)))
   \<and> (flag_agrees self \<and> os_path_exists fs (default_video self) \<longrightarrow>
        flag_agrees (handle_media_end fs self))"
proof -
  have init: "VideoPlayer fs path = Inr self0 \<Longrightarrow> flag_agrees self0"
    by (auto simp: VideoPlayer_def flag_agrees_def split: if_splits)
  have change: "flag_agrees self \<Longrightarrow>
      flag_agrees (snd (change_video_in_main_thread fs self new_path))"
    by (cases "os_path_exists fs new_path")
      (auto simp: flag_agrees_def change_video_in_main_thread_missing
         change_video_in_main_thread_existing)
  have ended: "flag_agrees self \<and> os_path_exists fs (default_video self) \<Longrightarrow>
      flag_agrees (handle_media_end fs self)"
    by (auto simp: flag_agrees_def handle_media_end_def Let_def play_in_main_thread_fields
          change_video_in_main_thread_existing)
  from init change ended show ?thesis by blast
qed

theorem flag_agrees_invariant_witness:
  "VideoPlayer ex_fs ''/srv/videos/default/idle.mp4'' = Inr ex_fresh
   \<and> flag_agrees ex_fresh
   \<and> flag_agrees ex_promo_ended
   \<and> flag_agrees (snd (change_video_in_main_thread ex_fs ex_promo_ended
                          ''/srv/videos/default/idle.mp4''))
   \<and> os_path_exists ex_fs (default_video ex_promo_ended)
   \<and> flag_agrees (handle_media_end ex_fs ex_promo_ended)"
  using flag_agrees_invariant [of ex_fs "''/srv/videos/default/idle.mp4''" ex_fresh
          ex_promo_ended "''/srv/videos/default/idle.mp4''"]
  by (simp add: VideoPlayer_def ex_fs_def os_path_exists_def ex_promo_ended_def ex_fresh_def
        media_player_new_def flag_agrees_def)

end
